theory Spec2Isabelle
  imports Complex_Main "HOL-Library.Word"
begin

section \<open>Python values\<close>

text \<open>
  The field classes of \<^verbatim>\<open>lib/orm/fields.py\<close> receive arbitrary Python objects.  The
  values below are the runtime types the module tests for or operates on.  Text strings
  are lists of Unicode code points and byte strings are lists of octets;
  \<^verbatim>\<open>data.encode("utf8")\<close> turns the first into the second.  A finite float is carried as
  the rational number it denotes, which is all that \<^verbatim>\<open>==\<close> looks at.  \<^verbatim>\<open>PObject n\<close> is
  an instance of \<^verbatim>\<open>object\<close> with identity \<^verbatim>\<open>n\<close>: it has no methods beyond the
  defaults.  Tuples, sets, dicts and user classes are not represented.

  The source does not say which interpreter it runs under, and the interpreters differ on
  byte strings: whether one can equal a text string, and whether it has \<^verbatim>\<open>encode\<close>
  itself.  The definitions take the reading in which the two types are disjoint.  The
  properties of \<^verbatim>\<open>EnumField\<close> and \<^verbatim>\<open>SetField\<close> below are stated so that they do not
  rest on that choice: membership is \<^verbatim>\<open>py_in\<close> of the encoded byte string in
  \<^verbatim>\<open>values\<close>, whatever \<^verbatim>\<open>==\<close> makes of it, and what an input must satisfy to be
  accepted is said of text inputs only.
\<close>

type_synonym unicode = "nat list"
type_synonym bytes = "8 word list"

datatype pyval =
    PNone
  | PBool bool
  | PInt int
  | PFloat rat
  | PStr unicode
  | PBytes bytes
  | PList "pyval list"
  | PDate nat nat nat
  | PDateTime nat nat nat nat nat nat
  | PTime nat nat nat
  | PObject nat

definition py_str :: "string \<Rightarrow> pyval" where
  "py_str lit = PStr (map of_char lit)"

text \<open>The exceptions that leave the module: the two of \<^verbatim>\<open>lib.exceptions\<close>, carrying a
  400-class and a 500-class HTTP status, and the built-in ones raised by the operations the
  code applies to its arguments.  Messages are not modelled.\<close>

datatype error =
    Core400Exception
  | Core500Exception
  | TypeError
  | AttributeError
  | ValueError
  | UnicodeEncodeError
  | ReError
  | CodecError

text \<open>\<^verbatim>\<open>type(data) is T\<close>: the exact runtime type, so that a \<^verbatim>\<open>bool\<close> is not an
  \<^verbatim>\<open>int\<close> and a \<^verbatim>\<open>datetime\<close> is not a \<^verbatim>\<open>date\<close>.\<close>

datatype pytype =
    TNoneType | TBool | TInt | TFloat | TStr | TBytes | TList
  | TDate | TDateTime | TTime | TObject

fun py_type :: "pyval \<Rightarrow> pytype" where
  "py_type PNone = TNoneType"
| "py_type (PBool b) = TBool"
| "py_type (PInt i) = TInt"
| "py_type (PFloat q) = TFloat"
| "py_type (PStr s) = TStr"
| "py_type (PBytes b) = TBytes"
| "py_type (PList vs) = TList"
| "py_type (PDate y m d) = TDate"
| "py_type (PDateTime y m d h mi s) = TDateTime"
| "py_type (PTime h mi s) = TTime"
| "py_type (PObject n) = TObject"

text \<open>Truth value testing, as in \<^verbatim>\<open>if self.identifier:\<close>.\<close>

fun py_truthy :: "pyval \<Rightarrow> bool" where
  "py_truthy PNone = False"
| "py_truthy (PBool b) = b"
| "py_truthy (PInt i) = (i \<noteq> 0)"
| "py_truthy (PFloat q) = (q \<noteq> 0)"
| "py_truthy (PStr s) = (s \<noteq> [])"
| "py_truthy (PBytes b) = (b \<noteq> [])"
| "py_truthy (PList vs) = (vs \<noteq> [])"
| "py_truthy (PDate y m d) = True"
| "py_truthy (PDateTime y m d h mi s) = True"
| "py_truthy (PTime h mi s) = True"
| "py_truthy (PObject n) = True"

text \<open>\<^verbatim>\<open>==\<close>: numbers compare by value across \<^verbatim>\<open>bool\<close>, \<^verbatim>\<open>int\<close> and \<^verbatim>\<open>float\<close>;
  everything else compares within its own type only (for a byte string and a text string
  this is the reading taken here, see above).\<close>

definition py_num :: "pyval \<Rightarrow> rat option" where
  "py_num v =
     (case v of
        PBool b \<Rightarrow> Some (if b then 1 else 0)
      | PInt i \<Rightarrow> Some (of_int i)
      | PFloat q \<Rightarrow> Some q
      | _ \<Rightarrow> None)"

definition num_eq :: "rat \<Rightarrow> pyval \<Rightarrow> bool" where
  "num_eq q w = (py_num w = Some q)"

fun py_eq :: "pyval \<Rightarrow> pyval \<Rightarrow> bool"
  and py_eq_list :: "pyval list \<Rightarrow> pyval list \<Rightarrow> bool" where
  "py_eq (PList xs) w = (case w of PList ys \<Rightarrow> py_eq_list xs ys | _ \<Rightarrow> False)"
| "py_eq (PBool b) w = num_eq (if b then 1 else 0) w"
| "py_eq (PInt i) w = num_eq (of_int i) w"
| "py_eq (PFloat q) w = num_eq q w"
| "py_eq PNone w = (w = PNone)"
| "py_eq (PStr s) w = (w = PStr s)"
| "py_eq (PBytes b) w = (w = PBytes b)"
| "py_eq (PDate y m d) w = (w = PDate y m d)"
| "py_eq (PDateTime y m d h mi s) w = (w = PDateTime y m d h mi s)"
| "py_eq (PTime h mi s) w = (w = PTime h mi s)"
| "py_eq (PObject n) w = (w = PObject n)"
| "py_eq_list [] ys = (ys = [])"
| "py_eq_list (x # xs) ys =
     (case ys of [] \<Rightarrow> False | y # ys' \<Rightarrow> py_eq x y \<and> py_eq_list xs ys')"

text \<open>Substring search, for \<^verbatim>\<open>in\<close> on two strings.\<close>

fun starts_with :: "'a list \<Rightarrow> 'a list \<Rightarrow> bool" where
  "starts_with [] ys = True"
| "starts_with (x # xs) [] = False"
| "starts_with (x # xs) (y # ys) = (x = y \<and> starts_with xs ys)"

fun occurs_in :: "'a list \<Rightarrow> 'a list \<Rightarrow> bool" where
  "occurs_in xs [] = (xs = [])"
| "occurs_in xs (y # ys) = (starts_with xs (y # ys) \<or> occurs_in xs ys)"

text \<open>\<^verbatim>\<open>x in c\<close>: membership by \<^verbatim>\<open>==\<close> in a list, substring search in a string; in a
  byte string an integer is looked up as an octet and raises \<^verbatim>\<open>ValueError\<close> outside
  \<^verbatim>\<open>range(256)\<close>; a container of another type raises \<^verbatim>\<open>TypeError\<close>.\<close>

fun py_in :: "pyval \<Rightarrow> pyval \<Rightarrow> error + bool" where
  "py_in x (PList vs) = Inr (list_ex (py_eq x) vs)"
| "py_in x (PStr t) = (case x of PStr s \<Rightarrow> Inr (occurs_in s t) | _ \<Rightarrow> Inl TypeError)"
| "py_in x (PBytes b) =
     (case x of
        PBytes a \<Rightarrow> Inr (occurs_in a b)
      | PInt i \<Rightarrow> if 0 \<le> i \<and> i < 256 then Inr (of_int i \<in> set b) else Inl ValueError
      | PBool c \<Rightarrow> Inr ((if c then 1 else 0) \<in> set b)
      | _ \<Rightarrow> Inl TypeError)"
| "py_in x PNone = Inl TypeError"
| "py_in x (PBool b) = Inl TypeError"
| "py_in x (PInt i) = Inl TypeError"
| "py_in x (PFloat q) = Inl TypeError"
| "py_in x (PDate y m d) = Inl TypeError"
| "py_in x (PDateTime y m d h mi s) = Inl TypeError"
| "py_in x (PTime h mi s) = Inl TypeError"
| "py_in x (PObject n) = Inl TypeError"

text \<open>\<^verbatim>\<open>str.encode("utf8")\<close>: one to four octets per code point; a surrogate has no
  encoding and raises \<^verbatim>\<open>UnicodeEncodeError\<close>.  (A number from \<^verbatim>\<open>0x110000\<close> on is not a
  code point of any Python string; it is given no encoding either.)\<close>

definition utf8_char :: "nat \<Rightarrow> bytes option" where
  "utf8_char c =
     (if c < 0x80 then Some [of_nat c]
      else if c < 0x800 then Some [of_nat (0xC0 + c div 64), of_nat (0x80 + c mod 64)]
      else if c < 0x10000 then
        (if 0xD800 \<le> c \<and> c \<le> 0xDFFF then None
         else Some [of_nat (0xE0 + c div 4096), of_nat (0x80 + c div 64 mod 64),
                    of_nat (0x80 + c mod 64)])
      else if c < 0x110000 then
        Some [of_nat (0xF0 + c div 262144), of_nat (0x80 + c div 4096 mod 64),
              of_nat (0x80 + c div 64 mod 64), of_nat (0x80 + c mod 64)]
      else None)"

fun utf8_encode :: "unicode \<Rightarrow> bytes option" where
  "utf8_encode [] = Some []"
| "utf8_encode (c # cs) =
     (case utf8_char c of
        None \<Rightarrow> None
      | Some b \<Rightarrow> (case utf8_encode cs of None \<Rightarrow> None | Some bs \<Rightarrow> Some (b @ bs)))"


section \<open>Collaborators outside the module\<close>

text \<open>A compiled pattern is its \<^verbatim>\<open>match\<close> method on text: whether the pattern matches at
  the start of the string.  \<^verbatim>\<open>match\<close> raises \<^verbatim>\<open>TypeError\<close> on anything that is not
  text.\<close>

type_synonym regex = "unicode \<Rightarrow> bool"

definition regex_match :: "regex \<Rightarrow> pyval \<Rightarrow> error + bool" where
  "regex_match r v = (case v of PStr s \<Rightarrow> Inr (r s) | _ \<Rightarrow> Inl TypeError)"

text \<open>The patterns imported from \<^verbatim>\<open>lib.regex\<close>, and \<^verbatim>\<open>re.compile\<close>, which raises on a
  malformed pattern.\<close>

record regex_module =
  HTMLColor :: regex
  RFC3339_date :: regex
  RFC3339_datetime :: regex
  RFC3339_time :: regex
  MAIL :: regex
  XSS :: regex
  PHONE :: regex
  URL :: regex
  re_compile :: "pyval \<Rightarrow> error + regex"

text \<open>The class \<^verbatim>\<open>MimeType\<close> of \<^verbatim>\<open>lib.mimetype\<close>: two lists of mime types and two
  predicates.\<close>

record mimetype_module =
  openformat :: pyval
  image :: pyval
  mt_check :: "pyval \<Rightarrow> bool"
  checkExtension :: "pyval \<Rightarrow> pyval \<Rightarrow> bool"

section \<open>Keyword arguments\<close>

type_synonym kwargs = "(string \<times> pyval) list"

definition kw_get :: "kwargs \<Rightarrow> string \<Rightarrow> pyval \<Rightarrow> pyval" where
  "kw_get kw k d = (case map_of kw k of None \<Rightarrow> d | Some v \<Rightarrow> v)"

text \<open>\<^verbatim>\<open>kw.pop(k, d)\<close> returns the value and removes the key.\<close>

definition kw_pop :: "kwargs \<Rightarrow> string \<Rightarrow> pyval \<Rightarrow> pyval \<times> kwargs" where
  "kw_pop kw k d = (kw_get kw k d, filter (\<lambda>p. fst p \<noteq> k) kw)"

section \<open>Field\<close>

record field =
  regex :: "regex option"
  fieldName :: pyval
  label :: pyval
  help_v :: pyval
  default_v :: pyval
  identifier_v :: pyval
  require :: pyval
  unique :: pyval
  copy :: pyval
  compute :: pyval
  constraints :: pyval
  index :: pyval
  readwrite :: pyval
  readonly :: pyval
  backendType :: pyval

definition Field_params :: "string list" where
  "Field_params = [''fieldName'', ''label'', ''help'', ''default'', ''identifier'',
     ''require'', ''copy'', ''unique'', ''compute'', ''constraints'', ''index'',
     ''readwrite'', ''readonly'', ''backendType'']"

text \<open>\<^verbatim>\<open>Field.__init__(self, **kw)\<close>.  \<^verbatim>\<open>rx\<close> is the \<^verbatim>\<open>regex\<close> attribute the object
  already has when the base constructor runs: the attribute of its class, or the one a
  subclass constructor has set on the instance.  A keyword that is not a parameter raises
  \<^verbatim>\<open>TypeError\<close> before the body runs.\<close>

definition Field_init :: "regex option \<Rightarrow> kwargs \<Rightarrow> error + field" where
  "Field_init rx kw =
     (if \<not> list_all (\<lambda>p. fst p \<in> set Field_params) kw then Inl TypeError
      else
        let ident = kw_get kw ''identifier'' (PBool False) in
        Inr \<lparr> regex = rx,
              fieldName = kw_get kw ''fieldName'' PNone,
              label = kw_get kw ''label'' PNone,
              help_v = kw_get kw ''help'' PNone,
              default_v = (if py_truthy ident then PNone else kw_get kw ''default'' PNone),
              identifier_v = ident,
              require = (if py_truthy ident then PBool True
                         else kw_get kw ''require'' (PBool True)),
              unique = kw_get kw ''unique'' (PBool False),
              copy = kw_get kw ''copy'' (PBool True),
              compute = kw_get kw ''compute'' PNone,
              constraints = kw_get kw ''constraints'' PNone,
              index = kw_get kw ''index'' (PBool False),
              readwrite = kw_get kw ''readwrite'' (PList [py_str ''*'']),
              readonly = kw_get kw ''readonly'' (PList [py_str ''*'']),
              backendType = kw_get kw ''backendType'' PNone \<rparr>)"

text \<open>\<^verbatim>\<open>Field.check\<close>, inherited by every class that does not override it.\<close>

definition Field_check :: "'a field_scheme \<Rightarrow> pyval \<Rightarrow> error + unit" where
  "Field_check f data =
     (case regex f of
        None \<Rightarrow> Inr ()
      | Some r \<Rightarrow>
          (case regex_match r data of
             Inl e \<Rightarrow> Inl e
           | Inr m \<Rightarrow> if \<not> m then Inl Core400Exception else Inr ()))"

section \<open>BinaryField and ImageField\<close>

record binary_field = field +
  mimeTypes :: pyval

definition BinaryField_init :: "mimetype_module \<Rightarrow> kwargs \<Rightarrow> error + binary_field" where
  "BinaryField_init M kw =
     (let (mts, kw1) = kw_pop kw ''mimeTypes'' (openformat M) in
      if \<not> mt_check M mts then Inl Core500Exception
      else
        (case Field_init None kw1 of
           Inl e \<Rightarrow> Inl e
         | Inr f \<Rightarrow> Inr (field.extend f (binary_field.fields mts))))"

definition BinaryField_check ::
  "mimetype_module \<Rightarrow> 'a binary_field_scheme \<Rightarrow> pyval \<Rightarrow> pyval \<Rightarrow> error + unit" where
  "BinaryField_check M f mt ext =
     (case py_in mt (mimeTypes f) of
        Inl e \<Rightarrow> Inl e
      | Inr m \<Rightarrow>
          if \<not> m then Inl Core400Exception
          else if \<not> checkExtension M mt ext then Inl Core400Exception
          else Inr ())"

record image_field = binary_field +
  mimeType :: pyval
  extension :: pyval

text \<open>\<^verbatim>\<open>ImageField.__init__\<close>: the three tests in the order of the source, then the
  constructor of \<^verbatim>\<open>BinaryField\<close> with \<^verbatim>\<open>mimeTypes\<close> passed on.\<close>

definition ImageField_init :: "mimetype_module \<Rightarrow> kwargs \<Rightarrow> error + image_field" where
  "ImageField_init M kw =
     (let (mts, kw1) = kw_pop kw ''mimeTypes'' (image M);
          (mt, kw2) = kw_pop kw1 ''mimeType'' (py_str ''image/png'');
          (ext, kw3) = kw_pop kw2 ''extension'' (py_str ''png'')
      in
      if \<not> mt_check M mts then Inl Core500Exception
      else
        (case py_in mt mts of
           Inl e \<Rightarrow> Inl e
         | Inr m \<Rightarrow>
             if \<not> m then Inl Core500Exception
             else if \<not> checkExtension M mt ext then Inl Core400Exception
             else
               (case BinaryField_init M ((''mimeTypes'', mts) # kw3) of
                  Inl e \<Rightarrow> Inl e
                | Inr b \<Rightarrow> Inr (binary_field.extend b (image_field.fields mt ext)))))"

text \<open>The image codec (\<^verbatim>\<open>PIL.Image\<close>) is outside the repository: \<^verbatim>\<open>Image.open\<close> decodes a
  stream, \<^verbatim>\<open>image.save\<close> produces the octets of the image in a format, and
  \<^verbatim>\<open>is_format\<close> says which octet strings are files of a format.  A stream is an
  \<^verbatim>\<open>io.BytesIO\<close>: its buffer and its position.\<close>

record stream =
  buffer :: bytes
  pos :: nat

datatype filetype = JPEG | PNG | GIF

record 'img codec =
  image_open :: "stream \<Rightarrow> error + 'img"
  image_save :: "'img \<Rightarrow> filetype \<Rightarrow> error + bytes"
  is_format :: "filetype \<Rightarrow> bytes \<Rightarrow> bool"

definition convert_filetype :: "pyval \<Rightarrow> filetype option" where
  "convert_filetype ext =
     (if list_ex (py_eq ext) [py_str ''jpg'', py_str ''jpeg'', py_str ''jpe''] then Some JPEG
      else if list_ex (py_eq ext) [py_str ''png''] then Some PNG
      else if list_ex (py_eq ext) [py_str ''gif''] then Some GIF
      else None)"

text \<open>\<^verbatim>\<open>ImageField.convert\<close>: the result is a new \<^verbatim>\<open>BytesIO\<close> the image has been written
  to, left at the end of what was written.\<close>

definition ImageField_convert ::
  "'img codec \<Rightarrow> 'a image_field_scheme \<Rightarrow> stream \<Rightarrow> error + stream" where
  "ImageField_convert C f data =
     (case convert_filetype (extension f) of
        None \<Rightarrow> Inr data
      | Some ft \<Rightarrow>
          (case image_open C data of
             Inl e \<Rightarrow> Inl e
           | Inr img \<Rightarrow>
               (case image_save C img ft of
                  Inl e \<Rightarrow> Inl e
                | Inr bs \<Rightarrow> Inr \<lparr> buffer = bs, pos = length bs \<rparr>)))"

section \<open>Fields validated by runtime type\<close>

definition BoolField_init :: "kwargs \<Rightarrow> error + field" where
  "BoolField_init kw = Field_init None kw"

definition BoolField_check :: "'a field_scheme \<Rightarrow> pyval \<Rightarrow> error + unit" where
  "BoolField_check f data =
     (if py_type data \<noteq> TBool then Inl Core400Exception else Inr ())"

record sized_field = field +
  size_v :: pyval

record decimal_field = sized_field +
  precision :: pyval

definition CurrencyField_init :: "kwargs \<Rightarrow> error + decimal_field" where
  "CurrencyField_init kw =
     (case Field_init None kw of
        Inl e \<Rightarrow> Inl e
      | Inr f \<Rightarrow>
          Inr (sized_field.extend (field.extend f (sized_field.fields (PInt 10)))
                 (decimal_field.fields (PInt 2))))"

definition CurrencyField_check :: "'a field_scheme \<Rightarrow> pyval \<Rightarrow> error + unit" where
  "CurrencyField_check f data =
     (if py_type data \<noteq> TFloat \<and> py_type data \<noteq> TInt then Inl Core400Exception
      else Inr ())"

definition DecimalField_init :: "kwargs \<Rightarrow> error + decimal_field" where
  "DecimalField_init kw =
     (let (sz, kw1) = kw_pop kw ''size'' (PInt 10);
          (pr, kw2) = kw_pop kw1 ''precision'' (PInt 5)
      in
      case Field_init None kw2 of
        Inl e \<Rightarrow> Inl e
      | Inr f \<Rightarrow>
          Inr (sized_field.extend (field.extend f (sized_field.fields sz))
                 (decimal_field.fields pr)))"

definition DecimalField_check :: "'a field_scheme \<Rightarrow> pyval \<Rightarrow> error + unit" where
  "DecimalField_check f data =
     (if py_type data \<noteq> TFloat \<and> py_type data \<noteq> TInt then Inl Core400Exception
      else Inr ())"

record int_field = sized_field +
  zerofill :: pyval
  unsigned :: pyval

definition IntField_init :: "kwargs \<Rightarrow> error + int_field" where
  "IntField_init kw =
     (let (sz, kw1) = kw_pop kw ''size'' PNone;
          (zf, kw2) = kw_pop kw1 ''zerofill'' (PBool False);
          (us, kw3) = kw_pop kw2 ''unsigned'' (PBool False)
      in
      case Field_init None kw3 of
        Inl e \<Rightarrow> Inl e
      | Inr f \<Rightarrow>
          Inr (sized_field.extend (field.extend f (sized_field.fields sz))
                 (int_field.fields zf us)))"

definition IntField_check :: "'a field_scheme \<Rightarrow> pyval \<Rightarrow> error + unit" where
  "IntField_check f data =
     (if py_type data \<noteq> TInt then Inl Core400Exception else Inr ())"

text \<open>The date and time classes carry a pattern as class attribute and override
  \<^verbatim>\<open>check\<close> with a test of the runtime type.\<close>

definition DateField_init :: "regex_module \<Rightarrow> kwargs \<Rightarrow> error + field" where
  "DateField_init R kw = Field_init (Some (RFC3339_date R)) kw"

definition DateField_check :: "'a field_scheme \<Rightarrow> pyval \<Rightarrow> error + unit" where
  "DateField_check f data =
     (if py_type data \<noteq> TDate then Inl Core400Exception else Inr ())"

definition DateTimeField_init :: "regex_module \<Rightarrow> kwargs \<Rightarrow> error + field" where
  "DateTimeField_init R kw = Field_init (Some (RFC3339_datetime R)) kw"

definition DateTimeField_check :: "'a field_scheme \<Rightarrow> pyval \<Rightarrow> error + unit" where
  "DateTimeField_check f data =
     (if py_type data \<noteq> TDateTime then Inl Core400Exception else Inr ())"

definition TimeField_init :: "regex_module \<Rightarrow> kwargs \<Rightarrow> error + field" where
  "TimeField_init R kw = Field_init (Some (RFC3339_time R)) kw"

definition TimeField_check :: "'a field_scheme \<Rightarrow> pyval \<Rightarrow> error + unit" where
  "TimeField_check f data =
     (if py_type data \<noteq> TTime then Inl Core400Exception else Inr ())"

section \<open>Fields validated by a pattern\<close>

text \<open>\<^verbatim>\<open>ColorField\<close>, \<^verbatim>\<open>EmailField\<close>, \<^verbatim>\<open>PhoneField\<close> and \<^verbatim>\<open>URLField\<close> set a pattern as
  class attribute and a \<^verbatim>\<open>length\<close>, and inherit \<^verbatim>\<open>Field.check\<close>.  \<^verbatim>\<open>StringField\<close> has a
  \<^verbatim>\<open>length\<close> too.\<close>

record length_field = field +
  length_v :: pyval

definition ColorField_init :: "regex_module \<Rightarrow> kwargs \<Rightarrow> error + length_field" where
  "ColorField_init R kw =
     (case Field_init (Some (HTMLColor R)) kw of
        Inl e \<Rightarrow> Inl e
      | Inr f \<Rightarrow> Inr (field.extend f (length_field.fields (PInt 15))))"

definition EmailField_init :: "regex_module \<Rightarrow> kwargs \<Rightarrow> error + length_field" where
  "EmailField_init R kw =
     (case Field_init (Some (MAIL R)) kw of
        Inl e \<Rightarrow> Inl e
      | Inr f \<Rightarrow> Inr (field.extend f (length_field.fields (PInt 255))))"

definition PhoneField_init :: "regex_module \<Rightarrow> kwargs \<Rightarrow> error + length_field" where
  "PhoneField_init R kw =
     (case Field_init (Some (PHONE R)) kw of
        Inl e \<Rightarrow> Inl e
      | Inr f \<Rightarrow> Inr (field.extend f (length_field.fields (PInt 20))))"

definition URLField_init :: "regex_module \<Rightarrow> kwargs \<Rightarrow> error + length_field" where
  "URLField_init R kw =
     (case Field_init (Some (URL R)) kw of
        Inl e \<Rightarrow> Inl e
      | Inr f \<Rightarrow> Inr (field.extend f (length_field.fields (PInt 2048))))"

text \<open>\<^verbatim>\<open>StringField\<close> and \<^verbatim>\<open>ListField\<close> take the pattern as an argument, \<^verbatim>\<open>XSS\<close> when
  there is none, and raise when the pattern \<^emph>\<open>does\<close> match.\<close>

definition StringField_init :: "regex_module \<Rightarrow> kwargs \<Rightarrow> error + length_field" where
  "StringField_init R kw =
     (let (len, kw1) = kw_pop kw ''length'' PNone;
          (rx, kw2) = kw_pop kw1 ''regex'' PNone
      in
      case (if rx \<noteq> PNone then re_compile R rx else Inr (XSS R)) of
        Inl e \<Rightarrow> Inl e
      | Inr r \<Rightarrow>
          (case Field_init (Some r) kw2 of
             Inl e \<Rightarrow> Inl e
           | Inr f \<Rightarrow> Inr (field.extend f (length_field.fields len))))"

definition StringField_check :: "'a field_scheme \<Rightarrow> pyval \<Rightarrow> error + unit" where
  "StringField_check f data =
     (case regex f of
        None \<Rightarrow> Inl AttributeError
      | Some r \<Rightarrow>
          (case regex_match r data of
             Inl e \<Rightarrow> Inl e
           | Inr m \<Rightarrow> if m then Inl Core400Exception else Inr ()))"

definition ListField_init :: "regex_module \<Rightarrow> kwargs \<Rightarrow> error + field" where
  "ListField_init R kw =
     (let (rx, kw1) = kw_pop kw ''regex'' PNone in
      case (if rx \<noteq> PNone then re_compile R rx else Inr (XSS R)) of
        Inl e \<Rightarrow> Inl e
      | Inr r \<Rightarrow> Field_init (Some r) kw1)"

text \<open>The loop \<^verbatim>\<open>for val in data\<close> of \<^verbatim>\<open>ListField.check\<close>: it stops at the first element
  that raises.\<close>

fun ListField_check_loop :: "regex option \<Rightarrow> pyval list \<Rightarrow> error + unit" where
  "ListField_check_loop rx [] = Inr ()"
| "ListField_check_loop rx (val # vals) =
     (case rx of
        None \<Rightarrow> Inl AttributeError
      | Some r \<Rightarrow>
          (case regex_match r val of
             Inl e \<Rightarrow> Inl e
           | Inr m \<Rightarrow> if m then Inl Core400Exception else ListField_check_loop rx vals))"

definition ListField_check :: "'a field_scheme \<Rightarrow> pyval \<Rightarrow> error + unit" where
  "ListField_check f data =
     (case data of
        PList vals \<Rightarrow> ListField_check_loop (regex f) vals
      | _ \<Rightarrow> Inl Core400Exception)"

section \<open>Fields validated by membership\<close>

record values_field = field +
  values_v :: pyval

definition EnumField_init :: "kwargs \<Rightarrow> error + values_field" where
  "EnumField_init kw =
     (let (vs, kw1) = kw_pop kw ''values'' PNone in
      if vs = PNone then Inl Core500Exception
      else
        (case Field_init None kw1 of
           Inl e \<Rightarrow> Inl e
         | Inr f \<Rightarrow> Inr (field.extend f (values_field.fields vs))))"



definition SetField_init :: "kwargs \<Rightarrow> error + values_field" where
  "SetField_init kw =
     (let (vs, kw1) = kw_pop kw ''values'' PNone in
      if vs = PNone then Inl Core500Exception
      else
        (case Field_init None kw1 of
           Inl e \<Rightarrow> Inl e
         | Inr f \<Rightarrow> Inr (field.extend f (values_field.fields vs))))"



section \<open>Index\<close>

record Index =
  columns :: pyval

definition Index_init :: "pyval \<Rightarrow> Index" where
  "Index_init cols = \<lparr> columns = cols \<rparr>"

section \<open>Sample objects\<close>

text \<open>The object \<^verbatim>\<open>Field()\<close> builds without arguments, for a class whose \<^verbatim>\<open>regex\<close>
  attribute is \<^verbatim>\<open>rx\<close>.\<close>

definition Field_default :: "regex option \<Rightarrow> field" where
  "Field_default rx =
     \<lparr> regex = rx, fieldName = PNone, label = PNone, help_v = PNone, default_v = PNone,
       identifier_v = PBool False, require = PBool True, unique = PBool False,
       copy = PBool True, compute = PNone, constraints = PNone, index = PBool False,
       readwrite = PList [py_str ''*''], readonly = PList [py_str ''*''],
       backendType = PNone \<rparr>"

text \<open>An instance of the collaborators to run the definitions on: every pattern is a
  literal prefix, and \<^verbatim>\<open>re.compile\<close> takes its argument as the prefix to look for.\<close>

definition toy_regex :: regex_module where
  "toy_regex =
     \<lparr> HTMLColor = starts_with (map of_char ''#''),
       RFC3339_date = starts_with (map of_char ''2020-''),
       RFC3339_datetime = starts_with (map of_char ''2020-''),
       RFC3339_time = starts_with (map of_char ''12:''),
       MAIL = starts_with (map of_char ''a@''),
       XSS = starts_with (map of_char ''<''),
       PHONE = starts_with (map of_char ''+''),
       URL = starts_with (map of_char ''http''),
       re_compile = (\<lambda>p. case p of PStr s \<Rightarrow> Inr (starts_with s) | _ \<Rightarrow> Inl TypeError) \<rparr>"

text \<open>The object a class with a \<^verbatim>\<open>length\<close> builds without further arguments.\<close>

definition length_field_default :: "regex \<Rightarrow> pyval \<Rightarrow> length_field" where
  "length_field_default r len = field.extend (Field_default (Some r)) (length_field.fields len)"


text \<open>A small mime-type registry to run the definitions on.\<close>

definition toy_mime_table :: "(pyval \<times> pyval list) list" where
  "toy_mime_table =
     [(py_str ''image/png'', [py_str ''png'']),
      (py_str ''image/jpeg'', [py_str ''jpg'', py_str ''jpeg'', py_str ''jpe'']),
      (py_str ''image/gif'', [py_str ''gif'']),
      (py_str ''application/pdf'', [py_str ''pdf''])]"

definition toy_mimetype :: mimetype_module where
  "toy_mimetype =
     \<lparr> openformat = PList [py_str ''image/png'', py_str ''application/pdf''],
       image = PList [py_str ''image/png'', py_str ''image/jpeg'', py_str ''image/gif''],
       mt_check = (\<lambda>m. case m of
                      PList vs \<Rightarrow> list_all (\<lambda>v. v \<in> set (map fst toy_mime_table)) vs
                    | _ \<Rightarrow> False),
       checkExtension = (\<lambda>mt ext. case map_of toy_mime_table mt of
                      None \<Rightarrow> False
                    | Some es \<Rightarrow> ext \<in> set es) \<rparr>"

text \<open>The object \<^verbatim>\<open>ImageField\<close> builds from the three arguments of its own.\<close>

definition image_field_default :: "pyval \<Rightarrow> pyval \<Rightarrow> pyval \<Rightarrow> image_field" where
  "image_field_default mts mt ext =
     binary_field.extend (field.extend (Field_default None) (binary_field.fields mts))
       (image_field.fields mt ext)"

text \<open>A codec to run \<^verbatim>\<open>convert\<close> on: an image is its pixel data, a file is the
  signature of its format followed by the pixel data.\<close>

definition toy_magic :: "filetype \<Rightarrow> bytes" where
  "toy_magic ft =
     (case ft of
        JPEG \<Rightarrow> [0xFF, 0xD8, 0xFF]
      | PNG \<Rightarrow> [0x89, 0x50, 0x4E, 0x47]
      | GIF \<Rightarrow> [0x47, 0x49, 0x46, 0x38])"

definition toy_codec :: "bytes codec" where
  "toy_codec =
     \<lparr> image_open = (\<lambda>st.
          let b = drop (pos st) (buffer st) in
          if starts_with (toy_magic JPEG) b then Inr (drop 3 b)
          else if starts_with (toy_magic PNG) b then Inr (drop 4 b)
          else if starts_with (toy_magic GIF) b then Inr (drop 4 b)
          else Inl CodecError),
       image_save = (\<lambda>img ft. Inr (toy_magic ft @ img)),
       is_format = (\<lambda>ft b. starts_with (toy_magic ft) b) \<rparr>"

section \<open>The base class\<close>

lemma Field_init_no_args: "Field_init rx [] = Inr (Field_default rx)"
  by (simp add: Field_init_def Field_default_def kw_get_def Let_def)

lemma regex_Field_init: "Field_init rx kw = Inr f \<Longrightarrow> regex f = rx"
  by (auto simp: Field_init_def Let_def split: if_splits)

text \<open>
  Claim C2.  When every keyword is a parameter of \<^verbatim>\<open>Field.__init__\<close> the constructor
  returns an object.  If the \<^verbatim>\<open>identifier\<close> argument is true, the object has
  \<^verbatim>\<open>require = True\<close> and \<^verbatim>\<open>default = None\<close> whatever was passed for them; if it is
  false (or absent), \<^verbatim>\<open>require\<close> and \<^verbatim>\<open>default\<close> are the arguments passed, or their
  defaults \<^verbatim>\<open>True\<close> and \<^verbatim>\<open>None\<close>.\<close>

theorem Field_init_identifier:
  assumes "list_all (\<lambda>p. fst p \<in> set Field_params) kw"
  shows "\<exists>f. Field_init rx kw = Inr f \<and>
           (py_truthy (kw_get kw ''identifier'' (PBool False)) \<longrightarrow>
              require f = PBool True \<and> default_v f = PNone) \<and>
           (\<not> py_truthy (kw_get kw ''identifier'' (PBool False)) \<longrightarrow>
              require f = kw_get kw ''require'' (PBool True) \<and>
              default_v f = kw_get kw ''default'' PNone)"
  using assms by (simp add: Field_init_def Let_def)

theorem Field_init_identifier_witness:
  "\<exists>f. Field_init None [(''identifier'', PBool True), (''require'', PBool False),
                         (''default'', PInt 3)] = Inr f \<and>
       require f = PBool True \<and> default_v f = PNone"
  using Field_init_identifier
    [of "[(''identifier'', PBool True), (''require'', PBool False), (''default'', PInt 3)]" None]
  by (simp add: Field_params_def kw_get_def)

text \<open>
  Claim C5, as the code has it.  \<^verbatim>\<open>Field.check\<close> returns on every input when \<^verbatim>\<open>regex\<close>
  is \<^verbatim>\<open>None\<close>, as it is on every object of the base class; when \<^verbatim>\<open>regex\<close> is set,
  it returns on a string the pattern matches and raises the 400-class error on a string
  it does not match.\<close>

theorem Field_check_base:
  "(regex f = None \<longrightarrow> Field_check f data = Inr ()) \<and>
   (regex g = Some r \<longrightarrow>
      Field_check g (PStr s) = (if r s then Inr () else Inl Core400Exception)) \<and>
   (Field_init None kw = Inr h \<longrightarrow> Field_check h data = Inr ())"
  by (auto simp: Field_check_def regex_match_def dest: regex_Field_init)

theorem Field_check_base_witness:
  "Field_check (Field_default None) (PInt 5) = Inr () \<and>
   Field_check (Field_default (Some (\<lambda>s. s = [97]))) (PStr [98]) = Inl Core400Exception \<and>
   Field_check (Field_default (Some (\<lambda>s. s = [97]))) (PStr [97]) = Inr ()"
  using Field_check_base [of "Field_default None" "PInt 5"
      "Field_default (Some (\<lambda>s. s = [97]))" "\<lambda>s. s = [97]" "[98]" "[]" "Field_default None"]
    Field_check_base [of "Field_default None" "PInt 5"
      "Field_default (Some (\<lambda>s. s = [97]))" "\<lambda>s. s = [97]" "[97]" "[]" "Field_default None"]
  by (simp add: Field_default_def)

section \<open>Checks of the runtime type\<close>

text \<open>
  Claim C6.  \<^verbatim>\<open>BoolField.check\<close> returns exactly on a \<^verbatim>\<open>bool\<close>, \<^verbatim>\<open>IntField.check\<close>
  exactly on an \<^verbatim>\<open>int\<close>, \<^verbatim>\<open>CurrencyField.check\<close> and \<^verbatim>\<open>DecimalField.check\<close> exactly on
  a \<^verbatim>\<open>float\<close> or an \<^verbatim>\<open>int\<close>; on every other input they raise the 400-class error.\<close>

theorem type_validated_checks:
  "(BoolField_check f1 d = (if \<exists>b. d = PBool b then Inr () else Inl Core400Exception)) \<and>
   (IntField_check f2 d = (if \<exists>i. d = PInt i then Inr () else Inl Core400Exception)) \<and>
   (CurrencyField_check f3 d =
      (if (\<exists>q. d = PFloat q) \<or> (\<exists>i. d = PInt i) then Inr () else Inl Core400Exception)) \<and>
   (DecimalField_check f4 d =
      (if (\<exists>q. d = PFloat q) \<or> (\<exists>i. d = PInt i) then Inr () else Inl Core400Exception))"
  by (cases d)
    (simp_all add: BoolField_check_def IntField_check_def CurrencyField_check_def
      DecimalField_check_def)

theorem type_validated_checks_witness:
  "BoolField_check (Field_default None) (PInt 1) = Inl Core400Exception \<and>
   IntField_check (Field_default None) (PInt 1) = Inr () \<and>
   CurrencyField_check (Field_default None) (PInt 1) = Inr () \<and>
   DecimalField_check (Field_default None) (PInt 1) = Inr ()"
  using type_validated_checks
    [of "Field_default None" "PInt 1" "Field_default None" "Field_default None"
        "Field_default None"]
  by simp

text \<open>
  Claim C9.  \<^verbatim>\<open>IntField.check\<close> raises the 400-class error on \<^verbatim>\<open>True\<close> and on
  \<^verbatim>\<open>False\<close>: the test is on the exact runtime type.\<close>

theorem IntField_check_bool: "IntField_check f (PBool b) = Inl Core400Exception"
  by (simp add: IntField_check_def)

theorem IntField_check_bool_witness:
  "IntField_check (Field_default None) (PBool True) = Inl Core400Exception \<and>
   IntField_check (Field_default None) (PBool False) = Inl Core400Exception"
  using IntField_check_bool [of "Field_default None" True]
    IntField_check_bool [of "Field_default None" False]
  by simp

section \<open>StringField and ListField\<close>

lemma regex_extend [simp]: "regex (field.extend f m) = regex f"
  by (simp add: field.defs)

lemma kw_get_pop: "k' \<noteq> k \<Longrightarrow> kw_get (snd (kw_pop kw k d)) k' d' = kw_get kw k' d'"
  by (induction kw) (auto simp: kw_pop_def kw_get_def)

lemma fst_kw_pop [simp]: "fst (kw_pop kw k d) = kw_get kw k d"
  by (simp add: kw_pop_def)

lemma regex_StringField_init:
  assumes "StringField_init R kw = Inr f"
  shows "\<exists>r. regex f = Some r \<and>
    (if kw_get kw ''regex'' PNone \<noteq> PNone then re_compile R (kw_get kw ''regex'' PNone)
     else Inr (XSS R)) = Inr r"
  using assms
  by (auto simp: StringField_init_def kw_get_pop split_beta Let_def
      split: sum.splits if_splits dest: regex_Field_init)

lemma regex_ListField_init:
  assumes "ListField_init R kw = Inr f"
  shows "\<exists>r. regex f = Some r \<and>
    (if kw_get kw ''regex'' PNone \<noteq> PNone then re_compile R (kw_get kw ''regex'' PNone)
     else Inr (XSS R)) = Inr r"
  using assms
  by (auto simp: ListField_init_def kw_get_pop split_beta Let_def
      split: sum.splits if_splits dest: regex_Field_init)

lemma StringField_check_str:
  "regex f = Some r \<Longrightarrow>
     StringField_check f (PStr s) = (if r s then Inl Core400Exception else Inr ())"
  by (simp add: StringField_check_def regex_match_def)








lemma StringField_init_toy_default:
  "StringField_init toy_regex [] = Inr (length_field_default (XSS toy_regex) PNone)"
  by (simp add: StringField_init_def kw_pop_def kw_get_def Field_init_no_args
      length_field_default_def)

lemma StringField_init_toy_custom:
  "StringField_init toy_regex [(''regex'', py_str ''ab'')] =
     Inr (length_field_default (starts_with (map of_char ''ab'')) PNone)"
  by (simp add: StringField_init_def kw_pop_def kw_get_def Field_init_no_args
      length_field_default_def toy_regex_def py_str_def)

lemma ListField_init_toy_default:
  "ListField_init toy_regex [] = Inr (Field_default (Some (XSS toy_regex)))"
  by (simp add: ListField_init_def kw_pop_def kw_get_def Field_init_no_args)

lemma ListField_init_toy_custom:
  "ListField_init toy_regex [(''regex'', py_str ''ab'')] =
     Inr (Field_default (Some (starts_with (map of_char ''ab''))))"
  by (simp add: ListField_init_def kw_pop_def kw_get_def Field_init_no_args
      toy_regex_def py_str_def)


section \<open>Checks against a pattern\<close>

lemma regex_length_field_init:
  "ColorField_init R kw = Inr f \<Longrightarrow> regex f = Some (HTMLColor R)"
  "EmailField_init R kw = Inr f \<Longrightarrow> regex f = Some (MAIL R)"
  "PhoneField_init R kw = Inr f \<Longrightarrow> regex f = Some (PHONE R)"
  "URLField_init R kw = Inr f \<Longrightarrow> regex f = Some (URL R)"
  by (auto simp: ColorField_init_def EmailField_init_def PhoneField_init_def URLField_init_def
      split: sum.splits dest: regex_Field_init)

lemma Field_check_str:
  "regex f = Some r \<Longrightarrow>
     Field_check f (PStr s) = (if r s then Inr () else Inl Core400Exception)"
  by (simp add: Field_check_def regex_match_def)

text \<open>
  Claim C1, as the code has it.  \<^verbatim>\<open>Field.check\<close>, which the base class, \<^verbatim>\<open>ColorField\<close>,
  \<^verbatim>\<open>EmailField\<close>, \<^verbatim>\<open>PhoneField\<close> and \<^verbatim>\<open>URLField\<close> use, returns on exactly the strings
  the pattern matches and raises the 400-class error on the others.
  \<^verbatim>\<open>StringField.check\<close> does the opposite: it raises on exactly the strings its pattern
  matches.  \<^verbatim>\<open>ListField.check\<close>, \<^verbatim>\<open>DateField.check\<close>, \<^verbatim>\<open>DateTimeField.check\<close> and
  \<^verbatim>\<open>TimeField.check\<close> raise the 400-class error on every string, whatever their pattern.\<close>

theorem regex_checks_amended:
  "(regex f = Some r \<longrightarrow>
      Field_check f (PStr s) = (if r s then Inr () else Inl Core400Exception)) \<and>
   (ColorField_init R kw1 = Inr f1 \<longrightarrow>
      Field_check f1 (PStr s) = (if HTMLColor R s then Inr () else Inl Core400Exception)) \<and>
   (EmailField_init R kw2 = Inr f2 \<longrightarrow>
      Field_check f2 (PStr s) = (if MAIL R s then Inr () else Inl Core400Exception)) \<and>
   (PhoneField_init R kw3 = Inr f3 \<longrightarrow>
      Field_check f3 (PStr s) = (if PHONE R s then Inr () else Inl Core400Exception)) \<and>
   (URLField_init R kw4 = Inr f4 \<longrightarrow>
      Field_check f4 (PStr s) = (if URL R s then Inr () else Inl Core400Exception)) \<and>
   (regex g = Some r' \<longrightarrow>
      StringField_check g (PStr s) = (if r' s then Inl Core400Exception else Inr ())) \<and>
   ListField_check h (PStr s) = Inl Core400Exception \<and>
   DateField_check d1 (PStr s) = Inl Core400Exception \<and>
   DateTimeField_check d2 (PStr s) = Inl Core400Exception \<and>
   TimeField_check d3 (PStr s) = Inl Core400Exception"
  by (auto simp: Field_check_str StringField_check_str regex_length_field_init
      ListField_check_def DateField_check_def DateTimeField_check_def TimeField_check_def)

lemma ColorField_init_toy:
  "ColorField_init toy_regex [] = Inr (length_field_default (HTMLColor toy_regex) (PInt 15))"
  by (simp add: ColorField_init_def Field_init_no_args length_field_default_def)

lemma EmailField_init_toy:
  "EmailField_init toy_regex [] = Inr (length_field_default (MAIL toy_regex) (PInt 255))"
  by (simp add: EmailField_init_def Field_init_no_args length_field_default_def)

lemma PhoneField_init_toy:
  "PhoneField_init toy_regex [] = Inr (length_field_default (PHONE toy_regex) (PInt 20))"
  by (simp add: PhoneField_init_def Field_init_no_args length_field_default_def)

lemma URLField_init_toy:
  "URLField_init toy_regex [] = Inr (length_field_default (URL toy_regex) (PInt 2048))"
  by (simp add: URLField_init_def Field_init_no_args length_field_default_def)

lemma DateField_init_toy:
  "DateField_init toy_regex [] = Inr (Field_default (Some (RFC3339_date toy_regex)))"
  by (simp add: DateField_init_def Field_init_no_args)

theorem regex_checks_amended_witness:
  "Field_check (Field_default (Some (MAIL toy_regex))) (py_str ''a@b.c'') = Inr () \<and>
   Field_check (length_field_default (HTMLColor toy_regex) (PInt 15)) (py_str ''red'')
     = Inl Core400Exception \<and>
   Field_check (length_field_default (MAIL toy_regex) (PInt 255)) (py_str ''a@b.c'') = Inr () \<and>
   Field_check (length_field_default (PHONE toy_regex) (PInt 20)) (py_str ''a@b.c'')
     = Inl Core400Exception \<and>
   Field_check (length_field_default (URL toy_regex) (PInt 2048)) (py_str ''a@b.c'')
     = Inl Core400Exception \<and>
   StringField_check (length_field_default (XSS toy_regex) PNone) (py_str ''a@b.c'') = Inr ()"
proof -
  note at = regex_checks_amended [where f = "Field_default (Some (MAIL toy_regex))"
      and r = "MAIL toy_regex" and R = toy_regex
      and ?kw1.0 = "[]" and ?f1.0 = "length_field_default (HTMLColor toy_regex) (PInt 15)"
      and ?kw2.0 = "[]" and ?f2.0 = "length_field_default (MAIL toy_regex) (PInt 255)"
      and ?kw3.0 = "[]" and ?f3.0 = "length_field_default (PHONE toy_regex) (PInt 20)"
      and ?kw4.0 = "[]" and ?f4.0 = "length_field_default (URL toy_regex) (PInt 2048)"
      and g = "length_field_default (XSS toy_regex) PNone" and r' = "XSS toy_regex"
      and h = "Field_default None" and ?d1.0 = "Field_default None"
      and ?d2.0 = "Field_default None" and ?d3.0 = "Field_default None"]
  show ?thesis
    using at [where s = "map of_char ''a@b.c''"] at [where s = "map of_char ''red''"]
    apply (simp add: ColorField_init_toy EmailField_init_toy PhoneField_init_toy
        URLField_init_toy length_field_default_def Field_default_def)
    apply (simp add: py_str_def toy_regex_def)
    done
qed

text \<open>
  Claim C1 as stated fails: the string \<^verbatim>\<open><b>\<close> matches the pattern of a default
  \<^verbatim>\<open>StringField\<close> and \<^verbatim>\<open>check\<close> raises on it; a string that matches the date pattern
  is refused by \<^verbatim>\<open>DateField.check\<close>, which wants a \<^verbatim>\<open>date\<close> object.\<close>

theorem regex_checks_counterexample:
  "StringField_init toy_regex [] = Inr (length_field_default (XSS toy_regex) PNone) \<and>
   regex (length_field_default (XSS toy_regex) PNone) = Some (XSS toy_regex) \<and>
   XSS toy_regex (map of_char ''<b>'') \<and>
   StringField_check (length_field_default (XSS toy_regex) PNone) (py_str ''<b>'')
     = Inl Core400Exception \<and>
   DateField_init toy_regex [] = Inr (Field_default (Some (RFC3339_date toy_regex))) \<and>
   regex (Field_default (Some (RFC3339_date toy_regex))) = Some (RFC3339_date toy_regex) \<and>
   RFC3339_date toy_regex (map of_char ''2020-01-31'') \<and>
   DateField_check (Field_default (Some (RFC3339_date toy_regex))) (py_str ''2020-01-31'')
     = Inl Core400Exception"
  apply (simp add: StringField_init_toy_default DateField_init_toy)
  apply (simp add: StringField_check_def DateField_check_def regex_match_def py_str_def
      toy_regex_def length_field_default_def Field_default_def)
  done

text \<open>
  Claim C5 as stated fails on an input that is no string: with \<^verbatim>\<open>regex\<close> set,
  \<^verbatim>\<open>Field.check(5)\<close> neither returns nor raises the 400-class error, since
  \<^verbatim>\<open>regex.match\<close> raises \<^verbatim>\<open>TypeError\<close>; so it is on a \<^verbatim>\<open>ColorField\<close>, which inherits
  the method.\<close>

theorem Field_check_base_counterexample:
  "regex (Field_default (Some (starts_with [97]))) = Some (starts_with [97]) \<and>
   Field_check (Field_default (Some (starts_with [97]))) (PInt 5) = Inl TypeError \<and>
   ColorField_init toy_regex [] = Inr (length_field_default (HTMLColor toy_regex) (PInt 15)) \<and>
   regex (length_field_default (HTMLColor toy_regex) (PInt 15)) = Some (HTMLColor toy_regex) \<and>
   Field_check (length_field_default (HTMLColor toy_regex) (PInt 15)) (PInt 5) = Inl TypeError"
  apply (simp add: ColorField_init_toy)
  apply (simp add: Field_check_def regex_match_def Field_default_def length_field_default_def)
  done

section \<open>Checks of membership\<close>

lemma values_v_extend [simp]: "values_v (field.extend f (values_field.fields vs)) = vs"
  by (simp add: field.defs values_field.defs)

lemma py_in_list_total: "\<exists>m. py_in x (PList ws) = Inr m"
  by simp








lemma utf8_ab: "map utf8_encode [[97], [98]] = map Some [[97], [98]]"
  by (simp add: utf8_char_def)








section \<open>Configuration errors\<close>

text \<open>A missing \<^verbatim>\<open>values\<close> argument and an unknown mime type raise the 500-class
  error from the constructor.\<close>

lemma configuration_errors_500:
  "kw_get kw ''values'' PNone = PNone \<Longrightarrow> EnumField_init kw = Inl Core500Exception"
  "kw_get kw ''values'' PNone = PNone \<Longrightarrow> SetField_init kw = Inl Core500Exception"
  "\<not> mt_check M (kw_get kw ''mimeTypes'' (openformat M)) \<Longrightarrow>
     BinaryField_init M kw = Inl Core500Exception"
  "\<not> mt_check M (kw_get kw ''mimeTypes'' (image M)) \<Longrightarrow>
     ImageField_init M kw = Inl Core500Exception"
  by (simp_all add: EnumField_init_def SetField_init_def BinaryField_init_def
      ImageField_init_def split_beta Let_def)

text \<open>
  Claim C4.  The third test of \<^verbatim>\<open>ImageField.__init__\<close> breaks the rule: when the mime
  types are known and the output mime type is among them, but the output mime type and
  the extension do not agree, the constructor raises the 400-class error.\<close>

theorem ImageField_init_mismatch_400:
  assumes "mt_check M (kw_get kw ''mimeTypes'' (image M))"
    and "py_in (kw_get kw ''mimeType'' (py_str ''image/png''))
           (kw_get kw ''mimeTypes'' (image M)) = Inr True"
    and "\<not> checkExtension M (kw_get kw ''mimeType'' (py_str ''image/png''))
           (kw_get kw ''extension'' (py_str ''png''))"
  shows "ImageField_init M kw = Inl Core400Exception"
  using assms by (simp add: ImageField_init_def split_beta Let_def kw_get_pop)

theorem ImageField_init_mismatch_400_witness:
  "ImageField_init toy_mimetype [(''extension'', py_str ''jpg'')] = Inl Core400Exception"
proof -
  have a: "mt_check toy_mimetype
      (kw_get [(''extension'', py_str ''jpg'')] ''mimeTypes'' (image toy_mimetype))"
    by (simp add: toy_mimetype_def kw_get_def toy_mime_table_def py_str_def)
  have b: "py_in (kw_get [(''extension'', py_str ''jpg'')] ''mimeType'' (py_str ''image/png''))
      (kw_get [(''extension'', py_str ''jpg'')] ''mimeTypes'' (image toy_mimetype)) = Inr True"
    by (simp add: toy_mimetype_def kw_get_def py_str_def)
  have c: "\<not> checkExtension toy_mimetype
      (kw_get [(''extension'', py_str ''jpg'')] ''mimeType'' (py_str ''image/png''))
      (kw_get [(''extension'', py_str ''jpg'')] ''extension'' (py_str ''png''))"
    by (simp add: toy_mimetype_def kw_get_def toy_mime_table_def py_str_def)
  show ?thesis
    by (rule ImageField_init_mismatch_400 [OF a b c])
qed

section \<open>Image conversion\<close>

lemma py_eq_PStr [simp]: "py_eq x (PStr s) \<longleftrightarrow> x = PStr s"
  by (cases x) (auto simp: num_eq_def py_num_def)

lemma convert_filetype_None:
  "convert_filetype ext = None \<longleftrightarrow>
     ext \<notin> {py_str ''jpg'', py_str ''jpeg'', py_str ''jpe'', py_str ''png'', py_str ''gif''}"
  by (auto simp: convert_filetype_def py_str_def)

lemma convert_filetype_supported:
  "convert_filetype (py_str ''jpg'') = Some JPEG"
  "convert_filetype (py_str ''jpeg'') = Some JPEG"
  "convert_filetype (py_str ''jpe'') = Some JPEG"
  "convert_filetype (py_str ''png'') = Some PNG"
  "convert_filetype (py_str ''gif'') = Some GIF"
  by (simp_all add: convert_filetype_def py_str_def)

lemma extension_extend [simp]:
  "extension (binary_field.extend b (image_field.fields mt ext)) = ext"
  by (simp add: binary_field.defs image_field.defs)

text \<open>
  Claim C8.  When the extension of an \<^verbatim>\<open>ImageField\<close> is none of \<^verbatim>\<open>jpg\<close>, \<^verbatim>\<open>jpeg\<close>,
  \<^verbatim>\<open>jpe\<close>, \<^verbatim>\<open>png\<close>, \<^verbatim>\<open>gif\<close>, \<^verbatim>\<open>convert\<close> returns its input.  When it is
  \<^verbatim>\<open>png\<close> (one of the JPEG extensions, \<^verbatim>\<open>gif\<close>) and the codec decodes the input and
  encodes the image, \<^verbatim>\<open>convert\<close> returns a new stream that holds what the codec wrote
  for the format PNG (JPEG, GIF): a file of that format, for a codec whose \<^verbatim>\<open>save\<close>
  writes files of the format asked for.\<close>

theorem ImageField_convert_formats:
  "(extension f \<notin> {py_str ''jpg'', py_str ''jpeg'', py_str ''jpe'', py_str ''png'',
                    py_str ''gif''} \<longrightarrow>
      ImageField_convert C f data = Inr data) \<and>
   (extension g = py_str ''png'' \<and> image_open C data = Inr img \<and>
    image_save C img PNG = Inr bs \<and>
    (\<forall>i t b. image_save C i t = Inr b \<longrightarrow> is_format C t b) \<longrightarrow>
      ImageField_convert C g data = Inr \<lparr> buffer = bs, pos = length bs \<rparr> \<and>
      is_format C PNG bs) \<and>
   (extension h \<in> {py_str ''jpg'', py_str ''jpeg'', py_str ''jpe''} \<and>
    image_open C data = Inr img' \<and> image_save C img' JPEG = Inr bs' \<and>
    (\<forall>i t b. image_save C i t = Inr b \<longrightarrow> is_format C t b) \<longrightarrow>
      ImageField_convert C h data = Inr \<lparr> buffer = bs', pos = length bs' \<rparr> \<and>
      is_format C JPEG bs') \<and>
   (extension k = py_str ''gif'' \<and> image_open C data = Inr img'' \<and>
    image_save C img'' GIF = Inr bs'' \<and>
    (\<forall>i t b. image_save C i t = Inr b \<longrightarrow> is_format C t b) \<longrightarrow>
      ImageField_convert C k data = Inr \<lparr> buffer = bs'', pos = length bs'' \<rparr> \<and>
      is_format C GIF bs'')"
proof (intro conjI impI)
  assume "extension f \<notin> {py_str ''jpg'', py_str ''jpeg'', py_str ''jpe'', py_str ''png'',
                    py_str ''gif''}"
  then have "convert_filetype (extension f) = None"
    using convert_filetype_None [of "extension f"] by blast
  then show "ImageField_convert C f data = Inr data"
    by (simp add: ImageField_convert_def)
next
  assume a: "extension g = py_str ''png'' \<and> image_open C data = Inr img \<and>
    image_save C img PNG = Inr bs \<and>
    (\<forall>i t b. image_save C i t = Inr b \<longrightarrow> is_format C t b)"
  then show "ImageField_convert C g data = Inr \<lparr> buffer = bs, pos = length bs \<rparr>"
    by (simp add: ImageField_convert_def convert_filetype_supported)
  from a show "is_format C PNG bs" by blast
next
  assume a: "extension h \<in> {py_str ''jpg'', py_str ''jpeg'', py_str ''jpe''} \<and>
    image_open C data = Inr img' \<and> image_save C img' JPEG = Inr bs' \<and>
    (\<forall>i t b. image_save C i t = Inr b \<longrightarrow> is_format C t b)"
  then have "convert_filetype (extension h) = Some JPEG"
    by (auto simp: convert_filetype_supported)
  with a show "ImageField_convert C h data = Inr \<lparr> buffer = bs', pos = length bs' \<rparr>"
    by (simp add: ImageField_convert_def)
  from a show "is_format C JPEG bs'" by blast
next
  assume a: "extension k = py_str ''gif'' \<and> image_open C data = Inr img'' \<and>
    image_save C img'' GIF = Inr bs'' \<and>
    (\<forall>i t b. image_save C i t = Inr b \<longrightarrow> is_format C t b)"
  then show "ImageField_convert C k data = Inr \<lparr> buffer = bs'', pos = length bs'' \<rparr>"
    by (simp add: ImageField_convert_def convert_filetype_supported)
  from a show "is_format C GIF bs''" by blast
qed

lemma starts_with_append [simp]: "starts_with xs (xs @ ys)"
  by (induction xs) auto

lemma toy_codec_contract:
  "\<forall>i t b. image_save toy_codec i t = Inr b \<longrightarrow> is_format toy_codec t b"
  by (auto simp: toy_codec_def)

lemma ImageField_init_toy:
  "ImageField_init toy_mimetype [] =
     Inr (image_field_default (image toy_mimetype) (py_str ''image/png'') (py_str ''png''))"
  by (simp add: ImageField_init_def BinaryField_init_def kw_pop_def kw_get_def
      Field_init_no_args image_field_default_def toy_mimetype_def toy_mime_table_def
      py_str_def)

theorem ImageField_convert_formats_witness:
  "ImageField_convert toy_codec
     (image_field_default (image toy_mimetype) (py_str ''image/png'') (py_str ''bmp''))
     \<lparr> buffer = [0xFF, 0xD8, 0xFF, 1, 2, 3], pos = 0 \<rparr>
     = Inr \<lparr> buffer = [0xFF, 0xD8, 0xFF, 1, 2, 3], pos = 0 \<rparr> \<and>
   ImageField_convert toy_codec
     (image_field_default (image toy_mimetype) (py_str ''image/png'') (py_str ''png''))
     \<lparr> buffer = [0xFF, 0xD8, 0xFF, 1, 2, 3], pos = 0 \<rparr>
     = Inr \<lparr> buffer = [0x89, 0x50, 0x4E, 0x47, 1, 2, 3], pos = 7 \<rparr> \<and>
   is_format toy_codec JPEG [0xFF, 0xD8, 0xFF, 1, 2, 3] \<and>
   is_format toy_codec PNG [0x89, 0x50, 0x4E, 0x47, 1, 2, 3] \<and>
   ImageField_convert toy_codec
     (image_field_default (image toy_mimetype) (py_str ''image/jpeg'') (py_str ''jpeg''))
     \<lparr> buffer = [0xFF, 0xD8, 0xFF, 1, 2, 3], pos = 0 \<rparr>
     = Inr \<lparr> buffer = [0xFF, 0xD8, 0xFF, 1, 2, 3], pos = 6 \<rparr> \<and>
   ImageField_convert toy_codec
     (image_field_default (image toy_mimetype) (py_str ''image/gif'') (py_str ''gif''))
     \<lparr> buffer = [0xFF, 0xD8, 0xFF, 1, 2, 3], pos = 0 \<rparr>
     = Inr \<lparr> buffer = [0x47, 0x49, 0x46, 0x38, 1, 2, 3], pos = 7 \<rparr>"
proof -
  have op: "image_open toy_codec \<lparr> buffer = [0xFF, 0xD8, 0xFF, 1, 2, 3], pos = 0 \<rparr>
      = Inr [1, 2, 3]"
    by (simp add: toy_codec_def toy_magic_def)
  have sv: "image_save toy_codec [1, 2, 3] PNG = Inr [0x89, 0x50, 0x4E, 0x47, 1, 2, 3]"
    "image_save toy_codec [1, 2, 3] JPEG = Inr [0xFF, 0xD8, 0xFF, 1, 2, 3]"
    "image_save toy_codec [1, 2, 3] GIF = Inr [0x47, 0x49, 0x46, 0x38, 1, 2, 3]"
    by (simp_all add: toy_codec_def toy_magic_def)
  have fm: "is_format toy_codec JPEG [0xFF, 0xD8, 0xFF, 1, 2, 3]"
    by (simp add: toy_codec_def toy_magic_def)
  have ex: "py_str ''bmp'' \<notin> {py_str ''jpg'', py_str ''jpeg'', py_str ''jpe'', py_str ''png'',
      py_str ''gif''}" "py_str ''jpeg'' \<in> {py_str ''jpg'', py_str ''jpeg'', py_str ''jpe''}"
    by (simp_all add: py_str_def)
  show ?thesis
    using ImageField_convert_formats
      [where C = toy_codec
         and f = "image_field_default (image toy_mimetype) (py_str ''image/png'') (py_str ''bmp'')"
         and data = "\<lparr> buffer = [0xFF, 0xD8, 0xFF, 1, 2, 3], pos = 0 \<rparr>"
         and g = "image_field_default (image toy_mimetype) (py_str ''image/png'') (py_str ''png'')"
         and img = "[1, 2, 3]" and bs = "[0x89, 0x50, 0x4E, 0x47, 1, 2, 3]"
         and h = "image_field_default (image toy_mimetype) (py_str ''image/jpeg'') (py_str ''jpeg'')"
         and img' = "[1, 2, 3]" and bs' = "[0xFF, 0xD8, 0xFF, 1, 2, 3]"
         and k = "image_field_default (image toy_mimetype) (py_str ''image/gif'') (py_str ''gif'')"
         and img'' = "[1, 2, 3]" and bs'' = "[0x47, 0x49, 0x46, 0x38, 1, 2, 3]"]
      op sv fm ex toy_codec_contract
    by (simp add: image_field_default_def)
qed

end
